theory Spec2Isabelle
  imports Main "HOL-Library.Word" "HOL-Library.Sublist" "HOL-Library.AList"
begin

section \<open>Errors and JavaScript values\<close>

text \<open>
  Failures of the library are JavaScript exceptions; the model returns them as values.
  A validation error keeps the arguments of \<open>throwValidationError\<close> that tell the
  checks apart: the name of the value, its kind and the expectation.
\<close>

datatype valueKind = Parameter | ReturnedEntryData | SkylinkByteArray

datatype expected =
    TypeString
  | TypeObject
  | NonNull
  | HexEncodedString
  | HexEncodedWithValidPrefix
  | ValidSkylinkString
  | TypeUint8Array
  | Uint8ArrayOfLength nat nat
  | LengthBytes nat

datatype error =
    ValidationError string valueKind expected
  | UnexpectedProperty string valueKind string
  | EntryDataTooLong nat
  | DeletionSentinelNotAllowed
  | RevisionOverflow
  | BadSecretKey
  | NotJSON
  | DataNotJSON
  | NoReturn
  | TypeError
  | NetworkError
  | HttpError nat
  | UnexpectedStatus nat
  | ProofHeaderNotJSON
  | DataLinkMismatch
  | UnexpectedProofHeader
  | EntryLinkUnresolved
  | ProofInvalid

text \<open>
  The callers are JavaScript: an argument can hold a value of any type, and the
  validation functions test it at run time. \<open>JBytes\<close> is a \<open>Uint8Array\<close>.
\<close>

type_synonym byte = "8 word"

datatype jsval =
    JUndefined
  | JNull
  | JBool bool
  | JNum int
  | JStr string
  | JBytes "byte list"
  | JArr "jsval list"
  | JObj "(string \<times> jsval) list"

type_synonym jsobject = "(string \<times> jsval) list"

datatype jstype = TUndefined | TObject | TBoolean | TNumber | TString

fun typeof :: "jsval \<Rightarrow> jstype" where
  "typeof JUndefined = TUndefined"
| "typeof JNull = TObject"
| "typeof (JBool b) = TBoolean"
| "typeof (JNum n) = TNumber"
| "typeof (JStr s) = TString"
| "typeof (JBytes bs) = TObject"
| "typeof (JArr xs) = TObject"
| "typeof (JObj kvs) = TObject"

text \<open>The condition of \<open>if (v)\<close> and of \<open>!v\<close>.\<close>

fun truthy :: "jsval \<Rightarrow> bool" where
  "truthy JUndefined = False"
| "truthy JNull = False"
| "truthy (JBool b) = b"
| "truthy (JNum n) = (n \<noteq> 0)"
| "truthy (JStr s) = (s \<noteq> [])"
| "truthy (JBytes bs) = True"
| "truthy (JArr xs) = True"
| "truthy (JObj kvs) = True"

text \<open>
  An object is the list of its own properties in insertion order. A literal that names a
  key twice keeps the last value, so a property is read from the end.
\<close>

definition get_prop :: "jsobject \<Rightarrow> string \<Rightarrow> jsval option" where
  "get_prop obj k = map_of (rev obj) k"

text \<open>The decimal name of an array index.\<close>

fun digits10 :: "nat \<Rightarrow> string" where
  "digits10 n =
     (if n < 10 then [char_of (48 + n)]
      else digits10 (n div 10) @ [char_of (48 + n mod 10)])"

text \<open>
  The own enumerable properties of a value, as the spread \<open>{...v}\<close> and the loop
  \<open>for (const property in v)\<close> visit them: the properties of an object, the indices
  of an array, of a typed array and of a string, nothing for the other primitives.
\<close>

definition indexed :: "jsval list \<Rightarrow> jsobject" where
  "indexed xs = zip (map digits10 [0..<length xs]) xs"

fun own_entries :: "jsval \<Rightarrow> jsobject" where
  "own_entries (JObj kvs) = kvs"
| "own_entries (JArr xs) = indexed xs"
| "own_entries (JBytes bs) = indexed (map (\<lambda>b. JNum (uint b)) bs)"
| "own_entries (JStr s) = indexed (map (\<lambda>c. JStr [c]) s)"
| "own_entries v = []"

text \<open>
  \<open>{...a, ...b, ...c}\<close>: the properties are assigned from left to right; a key that is
  already there keeps its place and takes the new value.
\<close>

definition assign :: "jsobject \<Rightarrow> jsobject \<Rightarrow> jsobject" where
  "assign target source = fold (\<lambda>(k, v). AList.update k v) source target"

definition spread3 :: "jsobject \<Rightarrow> jsobject \<Rightarrow> jsobject \<Rightarrow> jsobject" where
  "spread3 a b c = assign (assign (assign [] a) b) c"

text \<open>
  \<open>v[k]\<close> for a string key on a value that is neither \<open>null\<close> nor \<open>undefined\<close>:
  a missing property reads as \<open>undefined\<close>.
\<close>

definition js_prop :: "jsval \<Rightarrow> string \<Rightarrow> jsval" where
  "js_prop v k = (case get_prop (own_entries v) k of None \<Rightarrow> JUndefined | Some x \<Rightarrow> x)"

section \<open>Revision tracker (utils/number.js, skydb.js)\<close>

text \<open>
  A registry entry as the SkyDB engine builds it: \<open>{ dataKey, data, revision }\<close>
  (the fields carry the prefix \<open>entry_\<close>, the names themselves are variables of the code). The
  revision is a JavaScript \<open>BigInt\<close>, an unbounded integer; the bound is checked by the
  code, not given by the type.
\<close>

record registry_entry =
  entry_dataKey :: string
  entry_data :: "byte list"
  entry_revision :: int

definition MAX_REVISION :: int where
  "MAX_REVISION = 18446744073709551615"

text \<open>\<open>getNextRevisionFromEntry(entry)\<close>; \<open>None\<close> is the \<open>null\<close> entry.\<close>

definition getNextRevisionFromEntry :: "registry_entry option \<Rightarrow> error + int" where
  "getNextRevisionFromEntry entry =
     (let revision = (case entry of None \<Rightarrow> 0 | Some e \<Rightarrow> entry_revision e + 1)
      in if revision > MAX_REVISION then Inl RevisionOverflow else Inr revision)"

section \<open>String helpers (utils/string.ts)\<close>









text \<open>\<open>isHexString\<close>: the test of the regular expression \<open>/^[0-9A-Fa-f]*$/\<close>.\<close>

definition is_hex_char :: "char \<Rightarrow> bool" where
  "is_hex_char c =
     (let n = (of_char c :: nat)
      in (48 \<le> n \<and> n \<le> 57) \<or> (65 \<le> n \<and> n \<le> 70) \<or> (97 \<le> n \<and> n \<le> 102))"

definition isHexString :: "string \<Rightarrow> bool" where
  "isHexString str = list_all is_hex_char str"






section \<open>Validation (utils/validation.js)\<close>

text \<open>
  Each function throws a validation error or returns; the model returns the value it
  let through, with the type the check has established.
\<close>

definition validateString :: "string \<Rightarrow> jsval \<Rightarrow> valueKind \<Rightarrow> error + string" where
  "validateString name v valueKind =
     (case v of JStr s \<Rightarrow> Inr s | _ \<Rightarrow> Inl (ValidationError name valueKind TypeString))"


definition validateObject :: "string \<Rightarrow> jsval \<Rightarrow> valueKind \<Rightarrow> error + jsval" where
  "validateObject name v valueKind =
     (if typeof v \<noteq> TObject then Inl (ValidationError name valueKind TypeObject)
      else if v = JNull then Inl (ValidationError name valueKind NonNull)
      else Inr v)"

text \<open>
  \<open>property in model\<close> holds for the own properties of the model and for the ones every
  object literal inherits from \<open>Object.prototype\<close>.
\<close>

definition Object_prototype :: "string list" where
  "Object_prototype =
     [''constructor'', ''__proto__'', ''hasOwnProperty'', ''isPrototypeOf'',
      ''propertyIsEnumerable'', ''toLocaleString'', ''toString'', ''valueOf'',
      ''__defineGetter__'', ''__defineSetter__'', ''__lookupGetter__'', ''__lookupSetter__'']"

definition in_object :: "string \<Rightarrow> jsobject \<Rightarrow> bool" where
  "in_object property model = (property \<in> set (map fst model) \<or> property \<in> set Object_prototype)"

text \<open>The loop over the properties of the value: the first one missing in the model throws.\<close>

fun check_properties :: "string \<Rightarrow> valueKind \<Rightarrow> jsobject \<Rightarrow> string list \<Rightarrow> error option" where
  "check_properties name valueKind model [] = None"
| "check_properties name valueKind model (property # rest) =
     (if \<not> in_object property model then Some (UnexpectedProperty name valueKind property)
      else check_properties name valueKind model rest)"

definition validateOptionalObject ::
  "string \<Rightarrow> jsval \<Rightarrow> valueKind \<Rightarrow> jsobject \<Rightarrow> error + jsval" where
  "validateOptionalObject name v valueKind model =
     (if \<not> truthy v then Inr v
      else (case validateObject name v valueKind of
              Inl e \<Rightarrow> Inl e
            | Inr w \<Rightarrow>
                (case check_properties name valueKind model (map fst (own_entries v)) of
                   Some e \<Rightarrow> Inl e
                 | None \<Rightarrow> Inr v)))"

definition validateUint8Array :: "string \<Rightarrow> jsval \<Rightarrow> valueKind \<Rightarrow> error + byte list" where
  "validateUint8Array name v valueKind =
     (case v of JBytes bs \<Rightarrow> Inr bs | _ \<Rightarrow> Inl (ValidationError name valueKind TypeUint8Array))"



section \<open>SkyDB engine (skydb.js)\<close>

subsection \<open>What the engine imports\<close>

text \<open>
  The engine imports constants and functions of modules that are not part of the
  sources at hand (\<open>registry\<close>, \<open>skydb_v2\<close>, \<open>skylink/sia\<close>, \<open>skylink/format\<close>,
  \<open>utils/encoding\<close>, \<open>utils/options\<close>, \<open>upload\<close>, \<open>tweetnacl\<close>) and built-in
  functions (\<open>Buffer\<close>, \<open>Uint8Array\<close>). They are the fields of one record; a function
  that can throw returns a sum. \<open>extractOptions(opts, model)\<close> picks the model's keys
  out of options that were spread over defaults holding these keys, and is taken as
  total.
\<close>

record deps =
  RAW_SKYLINK_SIZE :: nat
  BASE64_ENCODED_SKYLINK_SIZE :: nat
  URI_SKYNET_PREFIX :: string
  DEFAULT_BASE_OPTIONS :: jsobject
  DEFAULT_GET_ENTRY_OPTIONS :: jsobject
  DEFAULT_SET_ENTRY_OPTIONS :: jsobject
  DEFAULT_UPLOAD_OPTIONS :: jsobject
  DEFAULT_GET_JSON_OPTIONS :: jsobject
  DEFAULT_SET_JSON_OPTIONS :: jsobject
  DEFAULT_SET_ENTRY_DATA_OPTIONS :: jsobject
  validatePublicKey :: "jsval \<Rightarrow> error + string"
  parseSkylink :: "string \<Rightarrow> string option"
  decodeSkylink :: "string \<Rightarrow> error + byte list"
  fromSecretKey :: "byte list \<Rightarrow> error + byte list"
  extractOptions :: "jsobject \<Rightarrow> jsobject \<Rightarrow> jsobject"
  utf8_encode :: "string \<Rightarrow> byte list"
  utf8_decode :: "byte list \<Rightarrow> string"
  decodeSkylinkBase64 :: "string \<Rightarrow> error + jsval"
  encodeSkylinkBase64 :: "byte list \<Rightarrow> string"
  formatSkylink :: "string \<Rightarrow> string"
  newUint8Array :: "jsval \<Rightarrow> jsval"

text \<open>\<open>DEFAULT_DOWNLOAD_OPTIONS\<close> of download.js.\<close>

definition DEFAULT_DOWNLOAD_OPTIONS :: "deps \<Rightarrow> jsobject" where
  "DEFAULT_DOWNLOAD_OPTIONS d =
     assign (assign [] (DEFAULT_BASE_OPTIONS d))
       [(''endpointDownload'', JStr ''/''), (''download'', JBool False),
        (''path'', JUndefined), (''range'', JUndefined), (''responseType'', JUndefined),
        (''subdomain'', JBool False)]"

text \<open>
  Modelled from the spec: the deletion sentinel \<open>EMPTY_SKYLINK\<close> of \<open>skylink/sia\<close> and
  \<open>DELETION_ENTRY_DATA\<close> of \<open>skydb_v2\<close>, "a well-known fixed-length all-zero byte
  sequence", of the length of a raw skylink.
\<close>

definition EMPTY_SKYLINK :: "deps \<Rightarrow> byte list" where
  "EMPTY_SKYLINK d = replicate (RAW_SKYLINK_SIZE d) 0"


text \<open>
  Modelled from the spec: \<open>areEqualUint8Arrays\<close> of \<open>utils/array\<close>, the test that the
  entry's "data equals the deletion sentinel".
\<close>

definition areEqualUint8Arrays :: "byte list \<Rightarrow> byte list \<Rightarrow> bool" where
  "areEqualUint8Arrays a b = (a = b)"



text \<open>
  Modelled from the spec: \<open>checkCachedDataLink\<close> of \<open>skydb_v2\<close>, the short-circuit
  "if caller supplies a previously-known data link and it matches the freshly resolved
  one".
\<close>

definition checkCachedDataLink :: "string \<Rightarrow> jsval \<Rightarrow> bool" where
  "checkCachedDataLink rawDataLink cachedDataLink =
     (truthy cachedDataLink \<and> cachedDataLink = JStr rawDataLink)"

subsection \<open>The client and its network calls\<close>

text \<open>
  The engine's functions are methods of a client \<open>this\<close>. The client keeps no state
  between calls; its four network operations are the fields of the record, each the
  answer of the portal to the call: \<open>registry.getEntry\<close> resolves with a signed entry
  whose \<open>entry\<close> may be \<open>null\<close>, \<open>registry.setEntry\<close> resolves or rejects,
  \<open>uploadFile\<close> resolves with the skylink, \<open>getFileContent\<close> with the data of the
  response. \<open>Promise.all\<close> rejects with the rejection that settles first; which of two
  rejections that is depends on timing, the field \<open>first_rejection\<close>.
\<close>

record signed_entry =
  signed_entry :: "registry_entry option"
  signed_signature :: "byte list option"

text \<open>
  A \<open>File\<close>: its one part, its name and its type. \<open>JsonText v\<close> is the text
  \<open>JSON.stringify(v)\<close>.
\<close>

datatype file_part = JsonText jsval | Bytes "byte list"

record skyfile =
  part :: file_part
  file_name :: string
  file_type :: string

record client =
  client_customOptions :: jsobject
  registry_getEntry :: "string \<Rightarrow> string \<Rightarrow> jsobject \<Rightarrow> error + signed_entry"
  registry_setEntry :: "string \<Rightarrow> registry_entry \<Rightarrow> jsobject \<Rightarrow> error + unit"
  uploadFile :: "skyfile \<Rightarrow> jsobject \<Rightarrow> error + string"
  getFileContent :: "string \<Rightarrow> jsobject \<Rightarrow> error + jsval"
  first_rejection :: "error \<Rightarrow> error \<Rightarrow> error"

text \<open>
  An asynchronous function returns its result, or the error it rejects with, and the
  network calls it has issued, in order.
\<close>

datatype call =
    GetEntry string string jsobject
  | SetEntry string registry_entry jsobject
  | UploadFile skyfile jsobject
  | GetFileContent string jsobject

type_synonym 'a io = "(error + 'a) \<times> call list"

definition io_return :: "'a \<Rightarrow> 'a io" where
  "io_return x = (Inr x, [])"

definition io_throw :: "error \<Rightarrow> 'a io" where
  "io_throw e = (Inl e, [])"

text \<open>A step that issues no call: it returns or throws.\<close>

definition io_of :: "error + 'a \<Rightarrow> 'a io" where
  "io_of r = (r, [])"

text \<open>Sequencing: an error ends the function, the calls issued so far stay issued.\<close>

definition io_bind :: "'a io \<Rightarrow> ('a \<Rightarrow> 'b io) \<Rightarrow> 'b io" where
  "io_bind m f =
     (case m of
        (Inl e, cs) \<Rightarrow> (Inl e, cs)
      | (Inr x, cs) \<Rightarrow> (case f x of (r, cs') \<Rightarrow> (r, cs @ cs')))"

definition await_getEntry :: "client \<Rightarrow> string \<Rightarrow> string \<Rightarrow> jsobject \<Rightarrow> signed_entry io" where
  "await_getEntry this publicKey dataKey opts =
     (registry_getEntry this publicKey dataKey opts, [GetEntry publicKey dataKey opts])"


definition await_getFileContent :: "client \<Rightarrow> string \<Rightarrow> jsobject \<Rightarrow> jsval io" where
  "await_getFileContent this dataLink opts =
     (getFileContent this dataLink opts, [GetFileContent dataLink opts])"


subsection \<open>Helpers\<close>

text \<open>
  Every public function merges its options the same way:
  \<open>const opts = { ...DEFAULTS, ...this.customOptions, ...customOptions }\<close>.
\<close>

definition call_opts :: "jsobject \<Rightarrow> client \<Rightarrow> jsval \<Rightarrow> jsobject" where
  "call_opts defaults this customOptions =
     spread3 defaults (client_customOptions this) (own_entries customOptions)"


definition getSkyDBRegistryEntry ::
  "deps \<Rightarrow> client \<Rightarrow> string \<Rightarrow> string \<Rightarrow> jsobject \<Rightarrow> registry_entry option io" where
  "getSkyDBRegistryEntry d client publicKey dataKey opts =
     io_bind (await_getEntry client publicKey dataKey opts) (\<lambda>signedEntry.
       case signed_entry signedEntry of
         None \<Rightarrow> io_return None
       | Some entry \<Rightarrow>
           if areEqualUint8Arrays (entry_data entry) (EMPTY_SKYLINK d) then io_return None
           else io_return (Some entry))"

text \<open>\<open>parseDataLink(data, legacy)\<close> returns \<open>{ rawDataLink, dataLink }\<close>.\<close>

definition parseDataLink :: "deps \<Rightarrow> byte list \<Rightarrow> bool \<Rightarrow> error + string \<times> string" where
  "parseDataLink d data legacy =
     (if legacy \<and> length data = BASE64_ENCODED_SKYLINK_SIZE d then
        (let rawDataLink = utf8_decode d data
         in Inr (rawDataLink, formatSkylink d rawDataLink))
      else if length data = RAW_SKYLINK_SIZE d then
        (let rawDataLink = encodeSkylinkBase64 d data
         in Inr (rawDataLink, formatSkylink d rawDataLink))
      else Inl (ValidationError ''entry.data'' ReturnedEntryData (LengthBytes (RAW_SKYLINK_SIZE d))))"



subsection \<open>JSON\<close>

text \<open>
  The public functions take JavaScript values and return an object, here the
  \<open>JObj\<close> of its properties.
\<close>

definition getJSON :: "deps \<Rightarrow> client \<Rightarrow> jsval \<Rightarrow> jsval \<Rightarrow> jsval \<Rightarrow> jsval io" where
  "getJSON d this publicKey dataKey customOptions =
     io_bind (io_of (validatePublicKey d publicKey)) (\<lambda>publicKeyStr.
     io_bind (io_of (validateString ''dataKey'' dataKey Parameter)) (\<lambda>dataKeyStr.
     io_bind (io_of (validateOptionalObject ''customOptions'' customOptions Parameter
                       (DEFAULT_GET_JSON_OPTIONS d))) (\<lambda>checked.
       let opts = call_opts (DEFAULT_GET_JSON_OPTIONS d) this customOptions;
           getEntryOpts = extractOptions d opts (DEFAULT_GET_ENTRY_OPTIONS d)
       in io_bind (getSkyDBRegistryEntry d this publicKeyStr dataKeyStr getEntryOpts) (\<lambda>entry.
            case entry of
              None \<Rightarrow> io_return (JObj [(''data'', JNull), (''dataLink'', JNull)])
            | Some e \<Rightarrow>
                io_bind (io_of (parseDataLink d (entry_data e) True)) (\<lambda>(rawDataLink, dataLink).
                  if checkCachedDataLink rawDataLink (js_prop (JObj opts) ''cachedDataLink'')
                  then io_return (JObj [(''data'', JNull), (''dataLink'', JStr dataLink)])
                  else
                    (let downloadOpts = extractOptions d opts (DEFAULT_DOWNLOAD_OPTIONS d)
                     in io_bind (await_getFileContent this dataLink downloadOpts) (\<lambda>data.
                          if typeof data \<noteq> TObject \<or> data = JNull then io_throw NotJSON
                          else if \<not> (truthy (js_prop data ''_data'') \<and> truthy (js_prop data ''_v''))
                          then io_return (JObj [(''data'', data), (''dataLink'', JStr dataLink)])
                          else
                            (let actualData = js_prop data ''_data''
                             in if typeof actualData \<noteq> TObject \<or> data = JNull
                                then io_throw DataNotJSON
                                else io_return (JObj [(''data'', actualData),
                                                      (''dataLink'', JStr dataLink)])))))))))"


subsection \<open>Entry data\<close>

definition getEntryData :: "deps \<Rightarrow> client \<Rightarrow> jsval \<Rightarrow> jsval \<Rightarrow> jsval \<Rightarrow> jsval io" where
  "getEntryData d this publicKey dataKey customOptions =
     io_bind (io_of (validatePublicKey d publicKey)) (\<lambda>publicKeyStr.
     io_bind (io_of (validateString ''dataKey'' dataKey Parameter)) (\<lambda>dataKeyStr.
     io_bind (io_of (validateOptionalObject ''customOptions'' customOptions Parameter
                       (DEFAULT_GET_ENTRY_OPTIONS d))) (\<lambda>checked.
       let opts = call_opts (DEFAULT_GET_ENTRY_OPTIONS d) this customOptions
       in io_bind (getSkyDBRegistryEntry d this publicKeyStr dataKeyStr opts) (\<lambda>entry.
            case entry of
              None \<Rightarrow> io_return (JObj [(''data'', JNull)])
            | Some e \<Rightarrow> io_return (JObj [(''data'', JBytes (entry_data e))])))))"





subsection \<open>Raw bytes\<close>

definition getRawBytes :: "deps \<Rightarrow> client \<Rightarrow> jsval \<Rightarrow> jsval \<Rightarrow> jsval \<Rightarrow> jsval io" where
  "getRawBytes d this publicKey dataKey customOptions =
     io_bind (io_of (validatePublicKey d publicKey)) (\<lambda>publicKeyStr.
     io_bind (io_of (validateString ''dataKey'' dataKey Parameter)) (\<lambda>dataKeyStr.
     io_bind (io_of (validateOptionalObject ''customOptions'' customOptions Parameter
                       (DEFAULT_GET_JSON_OPTIONS d))) (\<lambda>checked.
       let opts = call_opts (DEFAULT_GET_JSON_OPTIONS d) this customOptions;
           getEntryOpts = extractOptions d opts (DEFAULT_GET_ENTRY_OPTIONS d)
       in io_bind (getSkyDBRegistryEntry d this publicKeyStr dataKeyStr getEntryOpts) (\<lambda>entry.
            case entry of
              None \<Rightarrow> io_return (JObj [(''data'', JNull), (''dataLink'', JNull)])
            | Some e \<Rightarrow>
                io_bind (io_of (parseDataLink d (entry_data e) False)) (\<lambda>(rawDataLink, dataLink).
                  if checkCachedDataLink rawDataLink (js_prop (JObj opts) ''cachedDataLink'')
                  then io_return (JObj [(''data'', JNull), (''dataLink'', JStr dataLink)])
                  else
                    (let downloadOpts =
                           assign (assign [] (extractOptions d opts (DEFAULT_DOWNLOAD_OPTIONS d)))
                             [(''responseType'', JStr ''arraybuffer'')]
                     in io_bind (await_getFileContent this dataLink downloadOpts) (\<lambda>buffer.
                          io_return (JObj [(''data'', newUint8Array d buffer),
                                           (''dataLink'', JStr dataLink)]))))))))"

subsection \<open>Invalid caller input\<close>

text \<open>
  The inputs that the validation of the public functions rejects: an options argument
  with a property that is not in the model, an options argument that is truthy and
  not an object or has such a property, entry data of more than 70 bytes, and data that
  is not a \<open>Uint8Array\<close>.
\<close>

definition unknown_option :: "jsval \<Rightarrow> jsobject \<Rightarrow> bool" where
  "unknown_option customOptions model =
     (\<exists>property \<in> set (map fst (own_entries customOptions)). \<not> in_object property model)"

definition bad_options :: "jsval \<Rightarrow> jsobject \<Rightarrow> bool" where
  "bad_options customOptions model =
     (truthy customOptions
      \<and> (typeof customOptions \<noteq> TObject \<or> unknown_option customOptions model))"


definition is_Uint8Array :: "jsval \<Rightarrow> bool" where
  "is_Uint8Array v = (case v of JBytes bs \<Rightarrow> True | _ \<Rightarrow> False)"

subsection \<open>Answers of the registry\<close>

text \<open>
  What a read path can find: the lookup returns a \<open>null\<close> entry or an entry whose data
  is the deletion sentinel, or it returns an entry with other data.
\<close>

definition entry_absent :: "deps \<Rightarrow> error + signed_entry \<Rightarrow> bool" where
  "entry_absent d r =
     (case r of
        Inl e \<Rightarrow> False
      | Inr signedEntry \<Rightarrow>
          (case signed_entry signedEntry of
             None \<Rightarrow> True
           | Some e \<Rightarrow> entry_data e = EMPTY_SKYLINK d))"

definition entry_present :: "deps \<Rightarrow> error + signed_entry \<Rightarrow> registry_entry \<Rightarrow> bool" where
  "entry_present d r e =
     (case r of
        Inl err \<Rightarrow> False
      | Inr signedEntry \<Rightarrow> signed_entry signedEntry = Some e \<and> entry_data e \<noteq> EMPTY_SKYLINK d)"

subsection \<open>An instance for the examples\<close>

text \<open>
  Stand-ins for what the engine imports, enough to run it on an example: options with
  a few keys, a public key that is a hexadecimal string, the key pair of tweetnacl (a
  secret key of 64 bytes whose second half is the public key), and the unpadded URL-safe
  base64 codec for skylinks.
\<close>

definition base64_alphabet :: string where
  "base64_alphabet = ''ABCDEFGHIJKLMNOPQRSTUVWXYZabcdefghijklmnopqrstuvwxyz0123456789-_''"

fun position :: "char \<Rightarrow> string \<Rightarrow> nat" where
  "position c [] = 0"
| "position c (x # xs) = (if c = x then 0 else Suc (position c xs))"

fun sextets_to_bytes :: "nat list \<Rightarrow> nat list" where
  "sextets_to_bytes (a # b # c # e # rest) =
     (a * 4 + b div 16) # ((b mod 16) * 16 + c div 4) # ((c mod 4) * 64 + e)
       # sextets_to_bytes rest"
| "sextets_to_bytes [a, b, c] = [a * 4 + b div 16, (b mod 16) * 16 + c div 4]"
| "sextets_to_bytes [a, b] = [a * 4 + b div 16]"
| "sextets_to_bytes rest = []"

fun bytes_to_sextets :: "nat list \<Rightarrow> nat list" where
  "bytes_to_sextets (x # y # z # rest) =
     (x div 4) # ((x mod 4) * 16 + y div 16) # ((y mod 16) * 4 + z div 64) # (z mod 64)
       # bytes_to_sextets rest"
| "bytes_to_sextets [x, y] = [x div 4, (x mod 4) * 16 + y div 16, (y mod 16) * 4]"
| "bytes_to_sextets [x] = [x div 4, (x mod 4) * 16]"
| "bytes_to_sextets [] = []"

definition decodeSkylinkBase64_sample :: "string \<Rightarrow> error + jsval" where
  "decodeSkylinkBase64_sample s =
     (if list_all (\<lambda>c. c \<in> set base64_alphabet) s
      then Inr (JBytes (map of_nat (sextets_to_bytes (map (\<lambda>c. position c base64_alphabet) s))))
      else Inl TypeError)"

definition encodeSkylinkBase64_sample :: "byte list \<Rightarrow> string" where
  "encodeSkylinkBase64_sample bs = map (\<lambda>n. base64_alphabet ! n) (bytes_to_sextets (map unat bs))"

definition base_options_sample :: jsobject where
  "base_options_sample = [(''APIKey'', JStr []), (''timeout'', JNum 0)]"

definition get_entry_options_sample :: jsobject where
  "get_entry_options_sample =
     base_options_sample @ [(''endpointGetEntry'', JStr ''/skynet/registry''),
                            (''hashedDataKeyHex'', JBool False)]"

definition validatePublicKey_sample :: "jsval \<Rightarrow> error + string" where
  "validatePublicKey_sample v =
     (case v of
        JStr s \<Rightarrow>
          if isHexString s then Inr s
          else Inl (ValidationError ''publicKey'' Parameter HexEncodedWithValidPrefix)
      | _ \<Rightarrow> Inl TypeError)"

definition extractOptions_sample :: "jsobject \<Rightarrow> jsobject \<Rightarrow> jsobject" where
  "extractOptions_sample opts model = map (\<lambda>(k, v). (k, js_prop (JObj opts) k)) model"

definition formatSkylink_sample :: "string \<Rightarrow> string" where
  "formatSkylink_sample skylink =
     (if skylink = [] then skylink
      else if \<not> prefix ''sia://'' skylink then ''sia://'' @ skylink
      else skylink)"

definition deps_sample :: deps where
  "deps_sample =
     \<lparr>RAW_SKYLINK_SIZE = 34,
      BASE64_ENCODED_SKYLINK_SIZE = 46,
      URI_SKYNET_PREFIX = ''sia://'',
      DEFAULT_BASE_OPTIONS = base_options_sample,
      DEFAULT_GET_ENTRY_OPTIONS = get_entry_options_sample,
      DEFAULT_SET_ENTRY_OPTIONS =
        base_options_sample @ [(''endpointSetEntry'', JStr ''/skynet/registry''),
                               (''hashedDataKeyHex'', JBool False)],
      DEFAULT_UPLOAD_OPTIONS = base_options_sample @ [(''endpointUpload'', JStr ''/skynet/skyfile'')],
      DEFAULT_GET_JSON_OPTIONS = get_entry_options_sample @ [(''cachedDataLink'', JUndefined)],
      DEFAULT_SET_JSON_OPTIONS =
        get_entry_options_sample @ [(''endpointSetEntry'', JStr ''/skynet/registry''),
                                    (''endpointUpload'', JStr ''/skynet/skyfile'')],
      DEFAULT_SET_ENTRY_DATA_OPTIONS =
        get_entry_options_sample @ [(''endpointSetEntry'', JStr ''/skynet/registry''),
                                    (''allowDeletionEntryData'', JBool False)],
      validatePublicKey = validatePublicKey_sample,
      parseSkylink = (\<lambda>s. if length s = 46 then Some s else None),
      decodeSkylink =
        (\<lambda>s. case decodeSkylinkBase64_sample s of Inr (JBytes bs) \<Rightarrow> Inr bs | _ \<Rightarrow> Inl TypeError),
      fromSecretKey = (\<lambda>sk. if length sk = 64 then Inr (drop 32 sk) else Inl BadSecretKey),
      extractOptions = extractOptions_sample,
      utf8_encode = map (\<lambda>c. of_nat (of_char c)),
      utf8_decode = map (\<lambda>b. char_of (unat b)),
      decodeSkylinkBase64 = decodeSkylinkBase64_sample,
      encodeSkylinkBase64 = encodeSkylinkBase64_sample,
      formatSkylink = formatSkylink_sample,
      newUint8Array = (\<lambda>v. v)\<rparr>"

text \<open>
  A client whose portal holds the given entry (or none) at every key, accepts every
  write, stores every upload under one skylink and serves the given content.
\<close>

definition client_sample :: "registry_entry option \<Rightarrow> jsval \<Rightarrow> client" where
  "client_sample current content =
     \<lparr>client_customOptions = [(''timeout'', JNum 5)],
      registry_getEntry =
        (\<lambda>publicKey dataKey opts. Inr \<lparr>signed_entry = current, signed_signature = None\<rparr>),
      registry_setEntry = (\<lambda>privateKey e opts. Inr ()),
      uploadFile = (\<lambda>file opts. Inr ''sia://AACogzrAimYPG42tDOKhS3lXZD8YvlF8Q8R17afe95iV2Q''),
      getFileContent = (\<lambda>dataLink opts. Inr content),
      first_rejection = (\<lambda>e1 e2. e1)\<rparr>"


text \<open>An entry in the legacy format: its data is the base64 text of the skylink.\<close>

definition legacy_entry_sample :: registry_entry where
  "legacy_entry_sample =
     \<lparr>entry_dataKey = ''k'',
      entry_data = map (\<lambda>c. of_nat (of_char c)) ''AACogzrAimYPG42tDOKhS3lXZD8YvlF8Q8R17afe95iV2Q'',
      entry_revision = 0\<rparr>"

definition publicKey_sample :: string where
  "publicKey_sample = ''0123456789abcdef0123456789abcdef0123456789abcdef0123456789abcdef''"


section \<open>Registry proof validation (download.js)\<close>

text \<open>
  \<open>validateRegistryProofResponse(inputSkylink, dataLink, proof)\<close>. The proof is the
  \<open>skynet-proof\<close> response header: \<open>None\<close> when the header is missing, else its
  text. Three functions come from outside the file and are parameters: \<open>JSON.parse\<close>
  (\<open>None\<close> when it throws), \<open>isSkylinkV1\<close> and \<open>validateRegistryProof\<close>
  (\<open>Some e\<close> when it throws \<open>e\<close>).
\<close>

definition proof_present :: "string option \<Rightarrow> bool" where
  "proof_present hdr = (case hdr of None \<Rightarrow> False | Some s \<Rightarrow> s \<noteq> [])"

text \<open>
  The \<open>try\<close> block: a header that is there is parsed; a parse failure and a parsed
  value that is falsy both end in the same rethrown error.
\<close>

definition parse_proof :: "(string \<Rightarrow> jsval option) \<Rightarrow> string option \<Rightarrow> error + jsval" where
  "parse_proof JSON_parse hdr =
     (case hdr of
        None \<Rightarrow> Inr (JArr [])
      | Some s \<Rightarrow>
          if s \<noteq> [] then
            (case JSON_parse s of
               None \<Rightarrow> Inl ProofHeaderNotJSON
             | Some proofArray \<Rightarrow>
                 if \<not> truthy proofArray then Inl ProofHeaderNotJSON else Inr proofArray)
          else Inr (JArr []))"

definition validateRegistryProofResponse ::
  "(string \<Rightarrow> jsval option) \<Rightarrow> (string \<Rightarrow> bool) \<Rightarrow> (jsval \<Rightarrow> string \<Rightarrow> string \<Rightarrow> error option)
     \<Rightarrow> string \<Rightarrow> string \<Rightarrow> string option \<Rightarrow> error + unit" where
  "validateRegistryProofResponse JSON_parse isSkylinkV1 validateRegistryProof
       inputSkylink dataLink hdr =
     (case parse_proof JSON_parse hdr of
        Inl e \<Rightarrow> Inl e
      | Inr proofArray \<Rightarrow>
          if isSkylinkV1 inputSkylink then
            (if inputSkylink \<noteq> dataLink then Inl DataLinkMismatch
             else if proof_present hdr then Inl UnexpectedProofHeader
             else Inr ())
          else if inputSkylink = dataLink then Inl EntryLinkUnresolved
          else (case validateRegistryProof proofArray inputSkylink dataLink of
                  Some e \<Rightarrow> Inl e
                | None \<Rightarrow> Inr ()))"

text \<open>
  Values for the three parameters at the texts of the examples below: \<open>JSON.parse\<close>
  returns the empty array on \<open>[]\<close> and throws a SyntaxError on \<open>not json\<close>; a
  skylink whose base64 text starts with \<open>AQ\<close> is a version 2 (entry) link.
\<close>

definition JSON_parse_sample :: "string \<Rightarrow> jsval option" where
  "JSON_parse_sample s =
     (case map_of [(''[]'', Some (JArr [])), (''not json'', None)] s of
        Some r \<Rightarrow> r
      | None \<Rightarrow> None)"

definition isSkylinkV1_sample :: "string \<Rightarrow> bool" where
  "isSkylinkV1_sample s = (\<not> prefix ''AQ'' s)"

definition validateRegistryProof_sample :: "jsval \<Rightarrow> string \<Rightarrow> string \<Rightarrow> error option" where
  "validateRegistryProof_sample proofArray resolverSkylink skylink =
     (if proofArray = JArr [] then Some ProofInvalid else None)"

definition dataLink_sample :: string where
  "dataLink_sample = ''AACogzrAimYPG42tDOKhS3lXZD8YvlF8Q8R17afe95iV2Q''"

definition entryLink_sample :: string where
  "entryLink_sample = ''AQAZ1R-KcL4NO_xIVf0q8B1ngPVd6ec-Pu54O0Cto387Nw''"

section \<open>Legacy registry client (registry.ts)\<close>

text \<open>
  \<open>lookupRegistry\<close> and \<open>updateRegistry\<close> are methods of a client object
  \<open>this\<close> with its \<open>customOptions\<close> and its \<open>executeRequest\<close>, which either
  rejects (\<open>Inl\<close>: a network error, or the error axios raises for a status outside
  200..299) or resolves with a response. What the module imports, and the built-in
  functions that can throw, are fields of the same record: the module constant
  \<open>defaultRegistryOptions\<close>, the \<open>query\<close> and \<open>data\<close> objects built from the
  user and the file id, \<open>Buffer.from\<close> and \<open>parseInt\<close> (\<open>None\<close> for \<open>NaN\<close>).
  The output of \<open>console.log\<close> is not modelled.
\<close>

record axios_response =
  status :: nat
  response_data :: jsval

record RegistryValue =
  tweak :: "byte list"
  value_data :: jsval
  value_revision :: "int option"

record SignedRegistryValue =
  srv_value :: RegistryValue
  srv_signature :: jsval

record ('u, 'f) legacy_client =
  legacy_customOptions :: jsobject
  executeRequest :: "jsobject \<Rightarrow> error + axios_response"
  defaultRegistryOptions :: jsobject
  lookup_query :: "'u \<Rightarrow> 'f \<Rightarrow> error + jsval"
  update_data :: "'u \<Rightarrow> 'f \<Rightarrow> SignedRegistryValue \<Rightarrow> error + jsval"
  bufferFrom :: "jsval \<Rightarrow> error + byte list"
  parseInt10 :: "jsval \<Rightarrow> int option"


text \<open>
  \<open>const opts = { ...defaultRegistryOptions, ...customOptions, ...this.customOptions }\<close>,
  the first statement of both functions.
\<close>

definition registry_opts :: "('u, 'f) legacy_client \<Rightarrow> jsobject \<Rightarrow> jsobject" where
  "registry_opts this customOptions =
     spread3 (defaultRegistryOptions this) customOptions (legacy_customOptions this)"

text \<open>
  The \<open>try\<close> block of \<open>lookupRegistry\<close>: the request object
  \<open>{ ...opts, method: "get", query: {...} }\<close> is built and \<open>executeRequest\<close> is
  awaited. Whatever is thrown inside is caught.
\<close>

definition lookupRegistry_request ::
  "('u, 'f) legacy_client \<Rightarrow> 'u \<Rightarrow> 'f \<Rightarrow> jsobject \<Rightarrow> error + jsobject" where
  "lookupRegistry_request this user fileID customOptions =
     (case lookup_query this user fileID of
        Inl e \<Rightarrow> Inl e
      | Inr q \<Rightarrow>
          Inr (assign (assign [] (registry_opts this customOptions))
                 [(''method'', JStr ''get''), (''query'', q)]))"



definition updateRegistry_request ::
  "('u, 'f) legacy_client \<Rightarrow> 'u \<Rightarrow> 'f \<Rightarrow> SignedRegistryValue \<Rightarrow> jsobject \<Rightarrow> error + jsobject" where
  "updateRegistry_request this user fileID srv customOptions =
     (case update_data this user fileID srv of
        Inl e \<Rightarrow> Inl e
      | Inr d \<Rightarrow>
          Inr (assign (assign [] (registry_opts this customOptions))
                 [(''method'', JStr ''post''), (''data'', d)]))"



text \<open>
  A client for the examples: its portal rejects every request with the given error or
  answers every request with the given response.
\<close>

definition legacy_client_sample :: "error + axios_response \<Rightarrow> (unit, unit) legacy_client" where
  "legacy_client_sample answer =
     \<lparr>legacy_customOptions = [(''timeout'', JNum 5)],
      executeRequest = (\<lambda>request. answer),
      defaultRegistryOptions = [(''endpointPath'', JStr ''/skynet/registry''), (''timeout'', JNum 0)],
      lookup_query = (\<lambda>user fileID. Inr (JObj [])),
      update_data = (\<lambda>user fileID srv. Inr (JObj [])),
      bufferFrom = (\<lambda>v. Inr []),
      parseInt10 = (\<lambda>v. None)\<rparr>"

definition srv_sample :: SignedRegistryValue where
  "srv_sample =
     \<lparr>srv_value = \<lparr>tweak = [], value_data = JStr [], value_revision = Some 0\<rparr>,
      srv_signature = JStr []\<rparr>"

section \<open>Properties of the revision tracker\<close>

text \<open>
  C1. The next revision is 0 for the null entry, \<open>r + 1\<close> for a prior entry of revision
  \<open>r < 2^64 - 1\<close>, and the computation fails with the revision-overflow error for a
  prior entry whose revision is \<open>MAX_REVISION = 2^64 - 1\<close>.
\<close>

theorem getNextRevisionFromEntry_spec:
  "MAX_REVISION = 2 ^ 64 - 1
   \<and> getNextRevisionFromEntry None = Inr 0
   \<and> (entry_revision e < 2 ^ 64 - 1 \<longrightarrow> getNextRevisionFromEntry (Some e) = Inr (entry_revision e + 1))
   \<and> (entry_revision e = MAX_REVISION \<longrightarrow> getNextRevisionFromEntry (Some e) = Inl RevisionOverflow)"
  by (simp add: getNextRevisionFromEntry_def MAX_REVISION_def)

theorem getNextRevisionFromEntry_spec_witness:
  "(5::int) < 2 ^ 64 - 1
   \<and> getNextRevisionFromEntry (Some \<lparr>entry_dataKey = ''k'', entry_data = [], entry_revision = 5\<rparr>) = Inr 6
   \<and> getNextRevisionFromEntry
        (Some \<lparr>entry_dataKey = ''k'', entry_data = [], entry_revision = MAX_REVISION\<rparr>) = Inl RevisionOverflow"
  using getNextRevisionFromEntry_spec [of "\<lparr>entry_dataKey = ''k'', entry_data = [], entry_revision = 5\<rparr>"]
    getNextRevisionFromEntry_spec [of "\<lparr>entry_dataKey = ''k'', entry_data = [], entry_revision = MAX_REVISION\<rparr>"]
  by simp

section \<open>Properties of the registry proof validation\<close>

lemma parse_proof_absent:
  "\<not> proof_present hdr \<Longrightarrow> parse_proof JSON_parse hdr = Inr (JArr [])"
  by (auto simp: parse_proof_def proof_present_def split: option.splits)

lemma parse_proof_cases:
  "parse_proof JSON_parse hdr = Inl ProofHeaderNotJSON \<or> (\<exists>v. parse_proof JSON_parse hdr = Inr v)"
  by (auto simp: parse_proof_def split: option.splits)

text \<open>
  C3, as the code has it. For a version 1 (data) link as input the validation succeeds
  exactly when the returned link is the input and the proof header is missing or empty.
  Otherwise it fails: a header that is there and does not parse to a truthy JSON value
  fails first, with the parse error; then a differing link fails with the mismatch
  error; then a header that is there fails with the unexpected-proof error.
\<close>

theorem validate_data_link:
  "isDataLink inputSkylink \<Longrightarrow>
   validateRegistryProofResponse JSON_parse isDataLink vrp inputSkylink dataLink hdr =
     (case parse_proof JSON_parse hdr of
        Inl e \<Rightarrow> Inl ProofHeaderNotJSON
      | Inr v \<Rightarrow>
          if inputSkylink \<noteq> dataLink then Inl DataLinkMismatch
          else if proof_present hdr then Inl UnexpectedProofHeader
          else Inr ())
   \<and> ((validateRegistryProofResponse JSON_parse isDataLink vrp inputSkylink dataLink hdr = Inr ())
        = (dataLink = inputSkylink \<and> (hdr = None \<or> hdr = Some [])))"
  using parse_proof_cases [of JSON_parse hdr] parse_proof_absent [of hdr JSON_parse]
  by (auto simp: validateRegistryProofResponse_def proof_present_def split: sum.splits option.splits)

theorem validate_data_link_witness:
  "isSkylinkV1_sample dataLink_sample
   \<and> validateRegistryProofResponse JSON_parse_sample isSkylinkV1_sample
         validateRegistryProof_sample dataLink_sample dataLink_sample None = Inr ()
   \<and> validateRegistryProofResponse JSON_parse_sample isSkylinkV1_sample
         validateRegistryProof_sample dataLink_sample dataLink_sample (Some ''[]'')
       = Inl UnexpectedProofHeader
   \<and> validateRegistryProofResponse JSON_parse_sample isSkylinkV1_sample
         validateRegistryProof_sample dataLink_sample entryLink_sample None
       = Inl DataLinkMismatch"
proof -
  have v1: "isSkylinkV1_sample dataLink_sample"
    by (simp add: isSkylinkV1_sample_def dataLink_sample_def)
  have ne: "dataLink_sample \<noteq> entryLink_sample"
    by (simp add: dataLink_sample_def entryLink_sample_def)
  have p: "parse_proof JSON_parse_sample (Some ''[]'') = Inr (JArr [])"
    by (simp add: parse_proof_def JSON_parse_sample_def)
  show ?thesis
    using v1 ne p
      validate_data_link [where isDataLink = isSkylinkV1_sample
        and inputSkylink = dataLink_sample and JSON_parse = JSON_parse_sample
        and vrp = validateRegistryProof_sample and dataLink = dataLink_sample and hdr = None]
      validate_data_link [where isDataLink = isSkylinkV1_sample
        and inputSkylink = dataLink_sample and JSON_parse = JSON_parse_sample
        and vrp = validateRegistryProof_sample and dataLink = dataLink_sample
        and hdr = "Some ''[]''"]
      validate_data_link [where isDataLink = isSkylinkV1_sample
        and inputSkylink = dataLink_sample and JSON_parse = JSON_parse_sample
        and vrp = validateRegistryProof_sample and dataLink = entryLink_sample and hdr = None]
    by (simp add: parse_proof_def proof_present_def)
qed

text \<open>
  The claim C3 as stated fails: with a data link as input and the non-empty header
  \<open>not json\<close>, the failure is the parse error, not the unexpected-proof error when the
  same link is returned and not the mismatch error when another link is returned. And
  "empty" is said of the header, not of the proof it encodes: the header \<open>[]\<close>, an
  empty proof array, is a header that is there, and the validation fails.
\<close>

theorem validate_data_link_counterexample:
  "isSkylinkV1_sample dataLink_sample
   \<and> proof_present (Some ''not json'')
   \<and> validateRegistryProofResponse JSON_parse_sample isSkylinkV1_sample
         validateRegistryProof_sample dataLink_sample dataLink_sample (Some ''not json'')
       = Inl ProofHeaderNotJSON
   \<and> validateRegistryProofResponse JSON_parse_sample isSkylinkV1_sample
         validateRegistryProof_sample dataLink_sample dataLink_sample (Some ''not json'')
       \<noteq> Inl UnexpectedProofHeader
   \<and> validateRegistryProofResponse JSON_parse_sample isSkylinkV1_sample
         validateRegistryProof_sample dataLink_sample entryLink_sample (Some ''not json'')
       \<noteq> Inl DataLinkMismatch
   \<and> JSON_parse_sample ''[]'' = Some (JArr [])
   \<and> validateRegistryProofResponse JSON_parse_sample isSkylinkV1_sample
         validateRegistryProof_sample dataLink_sample dataLink_sample (Some ''[]'')
       \<noteq> Inr ()"
  by (simp add: validateRegistryProofResponse_def parse_proof_def proof_present_def
      JSON_parse_sample_def isSkylinkV1_sample_def dataLink_sample_def entryLink_sample_def)

text \<open>
  C4, as the code has it. For an entry (resolver) link as input and the same link
  returned, the validation never succeeds: it fails with the mismatch error of entry
  links whenever the proof header is missing, empty or parses to a truthy JSON value,
  and with the parse error otherwise.
\<close>

theorem validate_entry_link_same:
  "\<not> isDataLink inputSkylink \<Longrightarrow>
   validateRegistryProofResponse JSON_parse isDataLink vrp inputSkylink inputSkylink hdr =
     (case parse_proof JSON_parse hdr of
        Inl e \<Rightarrow> Inl ProofHeaderNotJSON
      | Inr v \<Rightarrow> Inl EntryLinkUnresolved)
   \<and> validateRegistryProofResponse JSON_parse isDataLink vrp inputSkylink inputSkylink hdr
       \<noteq> Inr ()"
  using parse_proof_cases [of JSON_parse hdr]
  by (auto simp: validateRegistryProofResponse_def split: sum.splits)

theorem validate_entry_link_same_witness:
  "\<not> isSkylinkV1_sample entryLink_sample
   \<and> validateRegistryProofResponse JSON_parse_sample isSkylinkV1_sample
         validateRegistryProof_sample entryLink_sample entryLink_sample (Some ''[]'')
       = Inl EntryLinkUnresolved
   \<and> validateRegistryProofResponse JSON_parse_sample isSkylinkV1_sample
         validateRegistryProof_sample entryLink_sample entryLink_sample None
       = Inl EntryLinkUnresolved"
proof -
  have v2: "\<not> isSkylinkV1_sample entryLink_sample"
    by (simp add: isSkylinkV1_sample_def entryLink_sample_def)
  show ?thesis
    using v2
      validate_entry_link_same [where isDataLink = isSkylinkV1_sample
        and inputSkylink = entryLink_sample and JSON_parse = JSON_parse_sample
        and vrp = validateRegistryProof_sample and hdr = "Some ''[]''"]
      validate_entry_link_same [where isDataLink = isSkylinkV1_sample
        and inputSkylink = entryLink_sample and JSON_parse = JSON_parse_sample
        and vrp = validateRegistryProof_sample and hdr = None]
    by (simp add: parse_proof_def JSON_parse_sample_def)
qed

text \<open>
  The claim C4 as stated fails: with an entry link as input, the same link returned and
  the header \<open>not json\<close>, the failure is the parse error, not the mismatch error.
\<close>

theorem validate_entry_link_same_counterexample:
  "\<not> isSkylinkV1_sample entryLink_sample
   \<and> validateRegistryProofResponse JSON_parse_sample isSkylinkV1_sample
         validateRegistryProof_sample entryLink_sample entryLink_sample (Some ''not json'')
       = Inl ProofHeaderNotJSON
   \<and> validateRegistryProofResponse JSON_parse_sample isSkylinkV1_sample
         validateRegistryProof_sample entryLink_sample entryLink_sample (Some ''not json'')
       \<noteq> Inl EntryLinkUnresolved"
  by (simp add: validateRegistryProofResponse_def parse_proof_def
      JSON_parse_sample_def isSkylinkV1_sample_def entryLink_sample_def)

section \<open>Properties of objects and of the option merging\<close>

lemma map_of_assign: "map_of (assign t s) = map_of t ++ map_of (rev s)"
proof (induction s arbitrary: t)
  case Nil
  then show ?case by (simp add: assign_def)
next
  case (Cons kv s)
  obtain k v where kv: "kv = (k, v)" by (cases kv)
  have "map_of (assign t (kv # s)) = map_of (assign (AList.update k v t) s)"
    by (simp add: assign_def kv)
  also have "\<dots> = map_of (AList.update k v t) ++ map_of (rev s)"
    by (rule Cons.IH)
  also have "\<dots> = map_of t ++ map_of (rev (kv # s))"
    by (auto simp: kv update_conv' map_add_def fun_eq_iff split: option.splits)
  finally show ?case .
qed

lemma distinct_assign: "distinct (map fst t) \<Longrightarrow> distinct (map fst (assign t s))"
  unfolding assign_def
  by (induction s arbitrary: t) (auto simp: distinct_update)

lemma map_of_rev_distinct: "distinct (map fst xs) \<Longrightarrow> map_of (rev xs) = map_of xs"
proof (induction xs)
  case Nil
  then show ?case by simp
next
  case (Cons x xs)
  then have "fst x \<notin> dom (map_of (rev xs))"
    by (simp add: dom_map_of_conv_image_fst)
  then show ?case using Cons
    by (cases x) (auto simp: map_add_def fun_eq_iff split: option.splits)
qed

lemma get_prop_assign:
  "distinct (map fst t) \<Longrightarrow>
   get_prop (assign t s) k = (case get_prop s k of Some v \<Rightarrow> Some v | None \<Rightarrow> get_prop t k)"
proof -
  assume d: "distinct (map fst t)"
  have "get_prop (assign t s) k = map_of (assign t s) k"
    by (simp add: get_prop_def map_of_rev_distinct [OF distinct_assign [OF d]])
  also have "\<dots> = (case map_of (rev s) k of Some v \<Rightarrow> Some v | None \<Rightarrow> map_of t k)"
    by (simp add: map_of_assign map_add_def split: option.splits)
  also have "\<dots> = (case get_prop s k of Some v \<Rightarrow> Some v | None \<Rightarrow> get_prop t k)"
    by (simp add: get_prop_def map_of_rev_distinct [OF d] split: option.splits)
  finally show ?thesis .
qed

lemma get_prop_spread3:
  "get_prop (spread3 a b c) k =
     (case get_prop c k of
        Some v \<Rightarrow> Some v
      | None \<Rightarrow> (case get_prop b k of Some v \<Rightarrow> Some v | None \<Rightarrow> get_prop a k))"
proof -
  have d1: "distinct (map fst (assign [] a))" by (simp add: distinct_assign)
  have d2: "distinct (map fst (assign (assign [] a) b))" by (simp add: distinct_assign)
  have e: "get_prop (assign [] a) k = get_prop a k"
    using get_prop_assign [of "[]" a k] by (simp add: get_prop_def split: option.splits)
  show ?thesis
    unfolding spread3_def
    by (simp add: get_prop_assign [OF d2] get_prop_assign [OF d1] e split: option.splits)
qed

text \<open>
  C9. In the legacy registry client the effective options of \<open>lookupRegistry\<close> and
  \<open>updateRegistry\<close> are the defaults, then the per-call options, then the options of
  the client: a key set by the client keeps the client's value whatever the call says,
  and the request carries these options under every key but the ones the function sets
  itself. The SkyDB engine merges the other way round: the per-call value wins.
\<close>

theorem option_precedence:
  "get_prop (registry_opts this customOptions) k =
     (case get_prop (legacy_customOptions this) k of
        Some v \<Rightarrow> Some v
      | None \<Rightarrow>
          (case get_prop customOptions k of
             Some v \<Rightarrow> Some v
           | None \<Rightarrow> get_prop (defaultRegistryOptions this) k))
   \<and> (get_prop (legacy_customOptions this) k = Some v
        \<longrightarrow> get_prop (registry_opts this customOptions) k = Some v)
   \<and> (lookupRegistry_request this user fileID customOptions = Inr request
          \<and> k \<noteq> ''method'' \<and> k \<noteq> ''query''
        \<longrightarrow> get_prop request k = get_prop (registry_opts this customOptions) k)
   \<and> (updateRegistry_request this user fileID srv customOptions = Inr request
          \<and> k \<noteq> ''method'' \<and> k \<noteq> ''data''
        \<longrightarrow> get_prop request k = get_prop (registry_opts this customOptions) k)
   \<and> get_prop (call_opts defaults client perCall) k =
       (case get_prop (own_entries perCall) k of
          Some v \<Rightarrow> Some v
        | None \<Rightarrow>
            (case get_prop (client_customOptions client) k of
               Some v \<Rightarrow> Some v
             | None \<Rightarrow> get_prop defaults k))"
proof -
  have d: "distinct (map fst (assign [] (registry_opts this customOptions)))"
    by (simp add: distinct_assign)
  have e: "get_prop (assign [] (registry_opts this customOptions)) k
             = get_prop (registry_opts this customOptions) k"
    using get_prop_assign [of "[]" "registry_opts this customOptions" k]
    by (simp add: get_prop_def split: option.splits)
  have l: "lookupRegistry_request this user fileID customOptions = Inr request
             \<and> k \<noteq> ''method'' \<and> k \<noteq> ''query''
           \<longrightarrow> get_prop request k = get_prop (registry_opts this customOptions) k"
  proof (cases "lookup_query this user fileID")
    case (Inl a)
    then show ?thesis by (simp add: lookupRegistry_request_def)
  next
    case (Inr q)
    have "k \<noteq> ''method'' \<and> k \<noteq> ''query''
            \<longrightarrow> get_prop [(''method'', JStr ''get''), (''query'', q)] k = None"
      by (simp add: get_prop_def)
    then show ?thesis
      using Inr e by (auto simp: lookupRegistry_request_def get_prop_assign [OF d])
  qed
  have u: "updateRegistry_request this user fileID srv customOptions = Inr request
             \<and> k \<noteq> ''method'' \<and> k \<noteq> ''data''
           \<longrightarrow> get_prop request k = get_prop (registry_opts this customOptions) k"
  proof (cases "update_data this user fileID srv")
    case (Inl a)
    then show ?thesis by (simp add: updateRegistry_request_def)
  next
    case (Inr q)
    have "k \<noteq> ''method'' \<and> k \<noteq> ''data''
            \<longrightarrow> get_prop [(''method'', JStr ''post''), (''data'', q)] k = None"
      by (simp add: get_prop_def)
    then show ?thesis
      using Inr e by (auto simp: updateRegistry_request_def get_prop_assign [OF d])
  qed
  show ?thesis
    using l u by (simp add: registry_opts_def call_opts_def get_prop_spread3 split: option.splits)
qed


theorem option_precedence_witness:
  "get_prop (registry_opts (legacy_client_sample (Inl NetworkError)) [(''timeout'', JNum 9)])
       ''timeout'' = Some (JNum 5)
   \<and> get_prop (call_opts base_options_sample (client_sample None JNull)
                  (JObj [(''timeout'', JNum 9)])) ''timeout'' = Some (JNum 9)"
  using option_precedence [of "legacy_client_sample (Inl NetworkError)" "[(''timeout'', JNum 9)]"
      "''timeout''" "JNum 5" "()" "()" "[]" srv_sample base_options_sample
      "client_sample None JNull" "JObj [(''timeout'', JNum 9)]"]
  by (simp add: get_prop_def legacy_client_sample_def client_sample_def base_options_sample_def)

section \<open>Properties of the legacy registry client\<close>




section \<open>Properties of the SkyDB engine\<close>

subsection \<open>Validation comes before the network\<close>

lemma io_bind_of_Inl: "io_bind (io_of (Inl e)) f = (Inl e, [])"
  by (simp add: io_bind_def io_of_def)

lemma io_bind_of_Inr: "io_bind (io_of (Inr x)) f = f x"
  by (simp add: io_bind_def io_of_def split: prod.splits)


lemma io_bind_of_cases:
  "io_bind (io_of r) f = (case r of Inl e \<Rightarrow> (Inl e, []) | Inr x \<Rightarrow> f x)"
  by (cases r) (simp_all add: io_bind_of_Inl io_bind_of_Inr)







lemma validateUint8Array_bad:
  "\<not> is_Uint8Array v \<Longrightarrow> \<exists>e. validateUint8Array name v valueKind = Inl e"
  by (cases v) (simp_all add: validateUint8Array_def is_Uint8Array_def)















subsection \<open>Reading an entry that is absent or deleted\<close>

lemma check_properties_known:
  "\<forall>property \<in> set ps. in_object property model \<Longrightarrow>
   check_properties name valueKind model ps = None"
  by (induction ps) auto

lemma validateOptionalObject_ok:
  "\<not> bad_options v model \<Longrightarrow> validateOptionalObject name v valueKind model = Inr v"
proof -
  assume b: "\<not> bad_options v model"
  show ?thesis
  proof (cases "truthy v")
    case False
    then show ?thesis by (simp add: validateOptionalObject_def)
  next
    case True
    with b have t: "typeof v = TObject"
      and k: "\<forall>property \<in> set (map fst (own_entries v)). in_object property model"
      by (auto simp: bad_options_def unknown_option_def)
    from True have n: "v \<noteq> JNull" by auto
    from check_properties_known [OF k]
    have "check_properties name valueKind model (map fst (own_entries v)) = None" .
    with True t n show ?thesis
      by (simp add: validateOptionalObject_def validateObject_def)
  qed
qed

lemma getSkyDBRegistryEntry_absent:
  "entry_absent d (registry_getEntry this publicKey dataKey opts) \<Longrightarrow>
   getSkyDBRegistryEntry d this publicKey dataKey opts = (Inr None, [GetEntry publicKey dataKey opts])"
  by (auto simp: entry_absent_def getSkyDBRegistryEntry_def await_getEntry_def io_bind_def
      io_return_def areEqualUint8Arrays_def split: sum.splits option.splits)

lemma getSkyDBRegistryEntry_present:
  "entry_present d (registry_getEntry this publicKey dataKey opts) e \<Longrightarrow>
   getSkyDBRegistryEntry d this publicKey dataKey opts = (Inr (Some e), [GetEntry publicKey dataKey opts])"
  by (auto simp: entry_present_def getSkyDBRegistryEntry_def await_getEntry_def io_bind_def
      io_return_def areEqualUint8Arrays_def split: sum.splits option.splits)

lemma io_bind_stepped:
  "m = (Inr x, cs) \<Longrightarrow> io_bind m f = (fst (f x), cs @ snd (f x))"
  by (simp add: io_bind_def split: prod.splits)

text \<open>
  C5. When the registry lookup returns a \<open>null\<close> entry or an entry whose data is the
  deletion sentinel, \<open>getJSON\<close> and \<open>getRawBytes\<close> return \<open>null\<close> data and a
  \<open>null\<close> data link, \<open>getEntryData\<close> returns \<open>null\<close> data, and the only network
  call is the registry read: nothing is downloaded.
\<close>

theorem reads_of_absent_entry:
  assumes "validatePublicKey d publicKey = Inr publicKeyStr"
    and "\<And>opts. entry_absent d (registry_getEntry this publicKeyStr dataKeyStr opts)"
  shows "(\<not> bad_options customOptions (DEFAULT_GET_JSON_OPTIONS d) \<longrightarrow>
            (\<exists>opts. getJSON d this publicKey (JStr dataKeyStr) customOptions
                      = (Inr (JObj [(''data'', JNull), (''dataLink'', JNull)]),
                         [GetEntry publicKeyStr dataKeyStr opts]))
          \<and> (\<exists>opts. getRawBytes d this publicKey (JStr dataKeyStr) customOptions
                      = (Inr (JObj [(''data'', JNull), (''dataLink'', JNull)]),
                         [GetEntry publicKeyStr dataKeyStr opts])))
       \<and> (\<not> bad_options customOptions (DEFAULT_GET_ENTRY_OPTIONS d) \<longrightarrow>
            (\<exists>opts. getEntryData d this publicKey (JStr dataKeyStr) customOptions
                      = (Inr (JObj [(''data'', JNull)]), [GetEntry publicKeyStr dataKeyStr opts])))"
  using assms(1)
  by (auto simp: getJSON_def getRawBytes_def getEntryData_def io_bind_of_cases validateString_def
      validateOptionalObject_ok Let_def io_return_def
      io_bind_stepped [OF getSkyDBRegistryEntry_absent [OF assms(2)]])


theorem reads_of_absent_entry_witness:
  "validatePublicKey deps_sample (JStr publicKey_sample) = Inr publicKey_sample
   \<and> \<not> bad_options JUndefined (DEFAULT_GET_JSON_OPTIONS deps_sample)
   \<and> (\<exists>opts. getJSON deps_sample (client_sample None JNull) (JStr publicKey_sample)
                (JStr ''k'') JUndefined
              = (Inr (JObj [(''data'', JNull), (''dataLink'', JNull)]),
                 [GetEntry publicKey_sample ''k'' opts]))
   \<and> (\<exists>opts. getRawBytes deps_sample
                (client_sample (Some \<lparr>entry_dataKey = ''k'', entry_data = replicate 34 0,
                                       entry_revision = 3\<rparr>) JNull)
                (JStr publicKey_sample) (JStr ''k'') JUndefined
              = (Inr (JObj [(''data'', JNull), (''dataLink'', JNull)]),
                 [GetEntry publicKey_sample ''k'' opts]))
   \<and> (\<exists>opts. getEntryData deps_sample
                (client_sample (Some \<lparr>entry_dataKey = ''k'', entry_data = replicate 34 0,
                                       entry_revision = 3\<rparr>) JNull)
                (JStr publicKey_sample) (JStr ''k'') JUndefined
              = (Inr (JObj [(''data'', JNull)]), [GetEntry publicKey_sample ''k'' opts]))"
proof -
  let ?deleted = "client_sample (Some \<lparr>entry_dataKey = ''k'', entry_data = replicate 34 0,
                                          entry_revision = 3\<rparr>) JNull"
  have v: "validatePublicKey deps_sample (JStr publicKey_sample) = Inr publicKey_sample"
    by code_simp
  have a: "\<And>opts. entry_absent deps_sample
             (registry_getEntry (client_sample None JNull) publicKey_sample ''k'' opts)"
    by (simp add: entry_absent_def client_sample_def)
  have b: "\<And>opts. entry_absent deps_sample (registry_getEntry ?deleted publicKey_sample ''k'' opts)"
    by (simp add: entry_absent_def client_sample_def EMPTY_SKYLINK_def deps_sample_def)
  have n: "\<not> bad_options JUndefined (DEFAULT_GET_JSON_OPTIONS deps_sample)"
    "\<not> bad_options JUndefined (DEFAULT_GET_ENTRY_OPTIONS deps_sample)"
    by (simp_all add: bad_options_def)
  show ?thesis
    using v n reads_of_absent_entry [OF v a, of JUndefined]
      reads_of_absent_entry [OF v b, of JUndefined]
    by simp
qed

subsection \<open>The length of the entry data\<close>

lemma parseDataLink_lengths:
  "(length data = RAW_SKYLINK_SIZE d \<longrightarrow> (\<exists>r. parseDataLink d data legacy = Inr r))
   \<and> (length data = BASE64_ENCODED_SKYLINK_SIZE d \<longrightarrow> (\<exists>r. parseDataLink d data True = Inr r))
   \<and> (length data \<noteq> RAW_SKYLINK_SIZE d \<and> length data \<noteq> BASE64_ENCODED_SKYLINK_SIZE d
        \<longrightarrow> parseDataLink d data legacy
              = Inl (ValidationError ''entry.data'' ReturnedEntryData
                       (LengthBytes (RAW_SKYLINK_SIZE d))))
   \<and> (length data \<noteq> RAW_SKYLINK_SIZE d
        \<longrightarrow> parseDataLink d data False
              = Inl (ValidationError ''entry.data'' ReturnedEntryData
                       (LengthBytes (RAW_SKYLINK_SIZE d))))"
  by (simp add: parseDataLink_def Let_def)

lemma getJSON_parse_failure:
  assumes "validatePublicKey d publicKey = Inr publicKeyStr"
    and "\<And>opts. entry_present d (registry_getEntry this publicKeyStr dataKeyStr opts) e"
    and "\<not> bad_options customOptions (DEFAULT_GET_JSON_OPTIONS d)"
    and "parseDataLink d (entry_data e) True = Inl err"
  shows "\<exists>opts. getJSON d this publicKey (JStr dataKeyStr) customOptions
           = (Inl err, [GetEntry publicKeyStr dataKeyStr opts])"
  using assms(1,3,4)
  by (auto simp: getJSON_def io_bind_of_cases validateString_def
      validateOptionalObject_ok Let_def
      io_bind_stepped [OF getSkyDBRegistryEntry_present [OF assms(2)]])

lemma getRawBytes_parse_failure:
  assumes "validatePublicKey d publicKey = Inr publicKeyStr"
    and "\<And>opts. entry_present d (registry_getEntry this publicKeyStr dataKeyStr opts) e"
    and "\<not> bad_options customOptions (DEFAULT_GET_JSON_OPTIONS d)"
    and "parseDataLink d (entry_data e) False = Inl err"
  shows "\<exists>opts. getRawBytes d this publicKey (JStr dataKeyStr) customOptions
           = (Inl err, [GetEntry publicKeyStr dataKeyStr opts])"
  using assms(1,3,4)
  by (auto simp: getRawBytes_def io_bind_of_cases validateString_def
      validateOptionalObject_ok Let_def
      io_bind_stepped [OF getSkyDBRegistryEntry_present [OF assms(2)]])

lemma io_bind_pair:
  "io_bind (r, cs) f =
     (case r of Inl e \<Rightarrow> (Inl e, cs) | Inr x \<Rightarrow> (fst (f x), cs @ snd (f x)))"
  by (simp add: io_bind_def split: sum.splits prod.splits)

lemma getJSON_parse_success:
  assumes "validatePublicKey d publicKey = Inr publicKeyStr"
    and "\<And>opts. entry_present d (registry_getEntry this publicKeyStr dataKeyStr opts) e"
    and "\<not> bad_options customOptions (DEFAULT_GET_JSON_OPTIONS d)"
    and "parseDataLink d (entry_data e) True = Inr (rawDataLink, dataLink)"
  shows "\<exists>opts. getJSON d this publicKey (JStr dataKeyStr) customOptions
                  = (Inr (JObj [(''data'', JNull), (''dataLink'', JStr dataLink)]),
                     [GetEntry publicKeyStr dataKeyStr opts])
              \<or> (\<exists>downloadOpts. snd (getJSON d this publicKey (JStr dataKeyStr) customOptions)
                     = [GetEntry publicKeyStr dataKeyStr opts,
                        GetFileContent dataLink downloadOpts])"
  using assms(1,3,4)
  by (auto simp: getJSON_def io_bind_of_cases validateString_def
      validateOptionalObject_ok Let_def io_return_def io_throw_def io_bind_pair
      await_getFileContent_def
      io_bind_stepped [OF getSkyDBRegistryEntry_present [OF assms(2)]] split: sum.splits)

lemma getRawBytes_parse_success:
  assumes "validatePublicKey d publicKey = Inr publicKeyStr"
    and "\<And>opts. entry_present d (registry_getEntry this publicKeyStr dataKeyStr opts) e"
    and "\<not> bad_options customOptions (DEFAULT_GET_JSON_OPTIONS d)"
    and "parseDataLink d (entry_data e) False = Inr (rawDataLink, dataLink)"
  shows "\<exists>opts. getRawBytes d this publicKey (JStr dataKeyStr) customOptions
                  = (Inr (JObj [(''data'', JNull), (''dataLink'', JStr dataLink)]),
                     [GetEntry publicKeyStr dataKeyStr opts])
              \<or> (\<exists>downloadOpts. snd (getRawBytes d this publicKey (JStr dataKeyStr) customOptions)
                     = [GetEntry publicKeyStr dataKeyStr opts,
                        GetFileContent dataLink downloadOpts])"
  using assms(1,3,4)
  by (auto simp: getRawBytes_def io_bind_of_cases validateString_def
      validateOptionalObject_ok Let_def io_return_def io_throw_def io_bind_pair
      await_getFileContent_def
      io_bind_stepped [OF getSkyDBRegistryEntry_present [OF assms(2)]] split: sum.splits)


text \<open>
  C6, as the code has it. \<open>getJSON\<close> accepts entry data of the raw skylink size and, for
  backward compatibility, of the base64 size: it goes on to the cached-link return or
  to the download of the parsed link; any other length fails with the validation
  error for the entry data. \<open>getRawBytes\<close> parses without the legacy flag: it accepts
  the raw skylink size only, and every other length, the base64 size included, fails
  with that error. In both cases only the registry has been read.
\<close>

theorem entry_data_length:
  assumes "validatePublicKey d publicKey = Inr publicKeyStr"
    and "\<And>opts. entry_present d (registry_getEntry this publicKeyStr dataKeyStr opts) e"
    and "\<not> bad_options customOptions (DEFAULT_GET_JSON_OPTIONS d)"
  shows "(length (entry_data e) = RAW_SKYLINK_SIZE d
            \<or> length (entry_data e) = BASE64_ENCODED_SKYLINK_SIZE d \<longrightarrow>
          (\<exists>rawDataLink dataLink opts.
             parseDataLink d (entry_data e) True = Inr (rawDataLink, dataLink)
             \<and> (getJSON d this publicKey (JStr dataKeyStr) customOptions
                    = (Inr (JObj [(''data'', JNull), (''dataLink'', JStr dataLink)]),
                       [GetEntry publicKeyStr dataKeyStr opts])
                  \<or> (\<exists>downloadOpts.
                        snd (getJSON d this publicKey (JStr dataKeyStr) customOptions)
                          = [GetEntry publicKeyStr dataKeyStr opts,
                             GetFileContent dataLink downloadOpts]))))
       \<and> (length (entry_data e) \<noteq> RAW_SKYLINK_SIZE d
            \<and> length (entry_data e) \<noteq> BASE64_ENCODED_SKYLINK_SIZE d \<longrightarrow>
          (\<exists>opts. getJSON d this publicKey (JStr dataKeyStr) customOptions
                    = (Inl (ValidationError ''entry.data'' ReturnedEntryData
                              (LengthBytes (RAW_SKYLINK_SIZE d))),
                       [GetEntry publicKeyStr dataKeyStr opts])))
       \<and> (length (entry_data e) = RAW_SKYLINK_SIZE d \<longrightarrow>
          (\<exists>rawDataLink dataLink opts.
             parseDataLink d (entry_data e) False = Inr (rawDataLink, dataLink)
             \<and> (getRawBytes d this publicKey (JStr dataKeyStr) customOptions
                    = (Inr (JObj [(''data'', JNull), (''dataLink'', JStr dataLink)]),
                       [GetEntry publicKeyStr dataKeyStr opts])
                  \<or> (\<exists>downloadOpts.
                        snd (getRawBytes d this publicKey (JStr dataKeyStr) customOptions)
                          = [GetEntry publicKeyStr dataKeyStr opts,
                             GetFileContent dataLink downloadOpts]))))
       \<and> (length (entry_data e) \<noteq> RAW_SKYLINK_SIZE d \<longrightarrow>
          (\<exists>opts. getRawBytes d this publicKey (JStr dataKeyStr) customOptions
                    = (Inl (ValidationError ''entry.data'' ReturnedEntryData
                              (LengthBytes (RAW_SKYLINK_SIZE d))),
                       [GetEntry publicKeyStr dataKeyStr opts])))"
proof (intro conjI impI)
  assume "length (entry_data e) = RAW_SKYLINK_SIZE d
            \<or> length (entry_data e) = BASE64_ENCODED_SKYLINK_SIZE d"
  then obtain r where "parseDataLink d (entry_data e) True = Inr r"
    using parseDataLink_lengths [of "entry_data e" d True] by blast
  then obtain raw link where p: "parseDataLink d (entry_data e) True = Inr (raw, link)"
    by (cases r) simp
  from getJSON_parse_success [OF assms(1) assms(2) assms(3) p] p
  show "\<exists>rawDataLink dataLink opts.
             parseDataLink d (entry_data e) True = Inr (rawDataLink, dataLink)
             \<and> (getJSON d this publicKey (JStr dataKeyStr) customOptions
                    = (Inr (JObj [(''data'', JNull), (''dataLink'', JStr dataLink)]),
                       [GetEntry publicKeyStr dataKeyStr opts])
                  \<or> (\<exists>downloadOpts.
                        snd (getJSON d this publicKey (JStr dataKeyStr) customOptions)
                          = [GetEntry publicKeyStr dataKeyStr opts,
                             GetFileContent dataLink downloadOpts]))"
    by blast
next
  assume "length (entry_data e) \<noteq> RAW_SKYLINK_SIZE d
            \<and> length (entry_data e) \<noteq> BASE64_ENCODED_SKYLINK_SIZE d"
  then have "parseDataLink d (entry_data e) True
               = Inl (ValidationError ''entry.data'' ReturnedEntryData
                        (LengthBytes (RAW_SKYLINK_SIZE d)))"
    using parseDataLink_lengths [of "entry_data e" d True] by blast
  from getJSON_parse_failure [OF assms(1) assms(2) assms(3) this]
  show "\<exists>opts. getJSON d this publicKey (JStr dataKeyStr) customOptions
                    = (Inl (ValidationError ''entry.data'' ReturnedEntryData
                              (LengthBytes (RAW_SKYLINK_SIZE d))),
                       [GetEntry publicKeyStr dataKeyStr opts])" .
next
  assume "length (entry_data e) = RAW_SKYLINK_SIZE d"
  then obtain r where "parseDataLink d (entry_data e) False = Inr r"
    using parseDataLink_lengths [of "entry_data e" d False] by blast
  then obtain raw link where p: "parseDataLink d (entry_data e) False = Inr (raw, link)"
    by (cases r) simp
  from getRawBytes_parse_success [OF assms(1) assms(2) assms(3) p] p
  show "\<exists>rawDataLink dataLink opts.
             parseDataLink d (entry_data e) False = Inr (rawDataLink, dataLink)
             \<and> (getRawBytes d this publicKey (JStr dataKeyStr) customOptions
                    = (Inr (JObj [(''data'', JNull), (''dataLink'', JStr dataLink)]),
                       [GetEntry publicKeyStr dataKeyStr opts])
                  \<or> (\<exists>downloadOpts.
                        snd (getRawBytes d this publicKey (JStr dataKeyStr) customOptions)
                          = [GetEntry publicKeyStr dataKeyStr opts,
                             GetFileContent dataLink downloadOpts]))"
    by blast
next
  assume "length (entry_data e) \<noteq> RAW_SKYLINK_SIZE d"
  then have "parseDataLink d (entry_data e) False
               = Inl (ValidationError ''entry.data'' ReturnedEntryData
                        (LengthBytes (RAW_SKYLINK_SIZE d)))"
    using parseDataLink_lengths [of "entry_data e" d False] by blast
  from getRawBytes_parse_failure [OF assms(1) assms(2) assms(3) this]
  show "\<exists>opts. getRawBytes d this publicKey (JStr dataKeyStr) customOptions
                    = (Inl (ValidationError ''entry.data'' ReturnedEntryData
                              (LengthBytes (RAW_SKYLINK_SIZE d))),
                       [GetEntry publicKeyStr dataKeyStr opts])" .
qed

theorem entry_data_length_witness:
  "validatePublicKey deps_sample (JStr publicKey_sample) = Inr publicKey_sample
   \<and> (\<forall>opts. entry_present deps_sample
          (registry_getEntry (client_sample (Some legacy_entry_sample) (JObj []))
             publicKey_sample ''k'' opts) legacy_entry_sample)
   \<and> \<not> bad_options JUndefined (DEFAULT_GET_JSON_OPTIONS deps_sample)
   \<and> length (entry_data legacy_entry_sample) = BASE64_ENCODED_SKYLINK_SIZE deps_sample
   \<and> (\<exists>opts downloadOpts.
         snd (getJSON deps_sample (client_sample (Some legacy_entry_sample) (JObj []))
                (JStr publicKey_sample) (JStr ''k'') JUndefined)
           = [GetEntry publicKey_sample ''k'' opts,
              GetFileContent ''sia://AACogzrAimYPG42tDOKhS3lXZD8YvlF8Q8R17afe95iV2Q'' downloadOpts])
   \<and> (\<exists>opts. getRawBytes deps_sample (client_sample (Some legacy_entry_sample) (JObj []))
                (JStr publicKey_sample) (JStr ''k'') JUndefined
              = (Inl (ValidationError ''entry.data'' ReturnedEntryData (LengthBytes 34)),
                 [GetEntry publicKey_sample ''k'' opts]))"
proof -
  let ?cl = "client_sample (Some legacy_entry_sample) (JObj [])"
  have v: "validatePublicKey deps_sample (JStr publicKey_sample) = Inr publicKey_sample"
    by code_simp
  have ne: "entry_data legacy_entry_sample \<noteq> EMPTY_SKYLINK deps_sample"
    by code_simp
  have p: "\<And>opts. entry_present deps_sample
             (registry_getEntry ?cl publicKey_sample ''k'' opts) legacy_entry_sample"
    using ne by (simp add: entry_present_def client_sample_def)
  have n: "\<not> bad_options JUndefined (DEFAULT_GET_JSON_OPTIONS deps_sample)"
    by (simp add: bad_options_def)
  have l: "length (entry_data legacy_entry_sample) = BASE64_ENCODED_SKYLINK_SIZE deps_sample"
    "length (entry_data legacy_entry_sample) \<noteq> RAW_SKYLINK_SIZE deps_sample"
    "RAW_SKYLINK_SIZE deps_sample = 34"
    by (simp_all add: legacy_entry_sample_def deps_sample_def)
  have pd: "parseDataLink deps_sample (entry_data legacy_entry_sample) True
              = Inr (''AACogzrAimYPG42tDOKhS3lXZD8YvlF8Q8R17afe95iV2Q'',
                     ''sia://AACogzrAimYPG42tDOKhS3lXZD8YvlF8Q8R17afe95iV2Q'')"
    by code_simp
  have c: "fst (getJSON deps_sample ?cl (JStr publicKey_sample) (JStr ''k'') JUndefined)
             = Inr (JObj [(''data'', JObj []),
                  (''dataLink'', JStr ''sia://AACogzrAimYPG42tDOKhS3lXZD8YvlF8Q8R17afe95iV2Q'')])"
    by code_simp
  from entry_data_length [OF v p n] l pd c
  have "(\<exists>opts downloadOpts.
         snd (getJSON deps_sample ?cl (JStr publicKey_sample) (JStr ''k'') JUndefined)
           = [GetEntry publicKey_sample ''k'' opts,
              GetFileContent ''sia://AACogzrAimYPG42tDOKhS3lXZD8YvlF8Q8R17afe95iV2Q'' downloadOpts])"
    by auto
  moreover from entry_data_length [OF v p n] l
  have "\<exists>opts. getRawBytes deps_sample ?cl (JStr publicKey_sample) (JStr ''k'') JUndefined
              = (Inl (ValidationError ''entry.data'' ReturnedEntryData (LengthBytes 34)),
                 [GetEntry publicKey_sample ''k'' opts])"
    by auto
  ultimately show ?thesis
    using v p n l by blast
qed

text \<open>
  The claim C6 as stated fails for \<open>getRawBytes\<close>: entry data of the base64 size, which
  \<open>getJSON\<close> accepts, is rejected.
\<close>

theorem entry_data_length_counterexample:
  "length (entry_data legacy_entry_sample) = BASE64_ENCODED_SKYLINK_SIZE deps_sample
   \<and> fst (getRawBytes deps_sample (client_sample (Some legacy_entry_sample) (JObj []))
            (JStr publicKey_sample) (JStr ''k'') JUndefined)
       = Inl (ValidationError ''entry.data'' ReturnedEntryData (LengthBytes 34))
   \<and> fst (getJSON deps_sample (client_sample (Some legacy_entry_sample) (JObj []))
            (JStr publicKey_sample) (JStr ''k'') JUndefined)
       = Inr (JObj [(''data'', JObj []),
                    (''dataLink'', JStr ''sia://AACogzrAimYPG42tDOKhS3lXZD8YvlF8Q8R17afe95iV2Q'')])"
  by code_simp

subsection \<open>Writing JSON and reading it back\<close>
















section \<open>Termination of the trimming loops\<close>









end
